theory Spec2Isabelle
  imports Complex_Main "HOL-Library.Stream" "HOL-Library.Word"
begin

section \<open>Data model\<close>

text \<open>
  Exceptions of the Python code are values. \<open>ValueError\<close> is what the feature module
  raises itself and what \<open>random.randint\<close> and \<open>numpy.concatenate\<close> raise;
  \<open>LibraryError\<close> stands for any other exception coming out of a library call.
\<close>

datatype error = ValueError string | LibraryError string

text \<open>
  A two-dimensional array (\<open>numpy.ndarray\<close> or \<open>torch.Tensor\<close>): its rows, and the
  length of its second axis, which an array with no rows still has. \<open>size0\<close> and
  \<open>size1\<close> are \<open>feat.size(0)\<close> and \<open>feat.size(1)\<close>.
\<close>

record 'a tensor =
  cols :: nat
  rows :: "'a list list"

definition size0 :: "'a tensor \<Rightarrow> int" where
  "size0 M = int (length (rows M))"

definition size1 :: "'a tensor \<Rightarrow> int" where
  "size1 M = int (cols M)"

definition wf_tensor :: "'a tensor \<Rightarrow> bool" where
  "wf_tensor M = list_all (\<lambda>r. length r = cols M) (rows M)"

definition entry :: "'a tensor \<Rightarrow> nat \<Rightarrow> nat \<Rightarrow> 'a" where
  "entry M i j = rows M ! i ! j"

text \<open>Two arrays of the same shape: as many rows, each as long.\<close>

definition same_shape :: "'a tensor \<Rightarrow> 'b tensor \<Rightarrow> bool" where
  "same_shape M N = (cols M = cols N \<and> map length (rows M) = map length (rows N))"

section \<open>Spectral augmentation\<close>

subsection \<open>The two random generators\<close>

text \<open>
  \<open>numpy.random\<close> and Python's \<open>random\<close> module each keep a generator of their own.
  A generator is the stream of raw integers it will produce; drawing takes the head.
  A seed is a choice of the two streams.

  \<open>np.random.uniform(low, high)\<close> is \<open>low + (high - low) * random_sample()\<close>, the
  sample being a 53-bit integer divided by \<open>2^53\<close>, so a number in \<open>[0, 1)\<close>.
  The arithmetic is done in the reals: rounding of the product is not modelled.
\<close>

definition np_random_uniform :: "real \<Rightarrow> real \<Rightarrow> nat stream \<Rightarrow> real \<times> nat stream" where
  "np_random_uniform low high g =
     (low + (high - low) * (real (shd g mod 2 ^ 53) / 2 ^ 53), stl g)"

text \<open>Python's \<open>int(x)\<close> on a float truncates towards zero.\<close>

definition py_int :: "real \<Rightarrow> int" where
  "py_int x = (if 0 \<le> x then \<lfloor>x\<rfloor> else \<lceil>x\<rceil>)"

text \<open>
  \<open>random.randint(a, b)\<close> is \<open>randrange(a, b + 1)\<close>: with \<open>width = b + 1 - a\<close> it
  returns \<open>a + _randbelow(width)\<close> when \<open>width > 0\<close> and raises \<open>ValueError\<close>
  otherwise, without drawing (Python's message also prints the range; it is shortened
  here). \<open>_randbelow(n)\<close> is a number below \<open>n\<close> obtained from the generator; here
  the raw draw modulo \<open>n\<close>, so that every number below \<open>n\<close> is the outcome of some
  draw.
\<close>

definition random_randint :: "int \<Rightarrow> int \<Rightarrow> nat stream \<Rightarrow> error + (int \<times> nat stream)" where
  "random_randint a b g =
     (let width = b + 1 - a in
      if 0 < width then Inr (a + int (shd g mod nat width), stl g)
      else Inl (ValueError ''empty range for randrange()''))"

subsection \<open>Slices\<close>

text \<open>
  The indices selected by the slice \<open>start : stop\<close> on an axis of length \<open>n\<close>: a
  negative bound counts from the end, and both bounds are clipped to \<open>[0, n]\<close>.
\<close>

definition slice_bound :: "int \<Rightarrow> int \<Rightarrow> int" where
  "slice_bound n i = (if i < 0 then max (i + n) 0 else min i n)"

definition in_slice :: "int \<Rightarrow> int \<Rightarrow> int \<Rightarrow> nat \<Rightarrow> bool" where
  "in_slice n start stop i = (slice_bound n start \<le> int i \<and> int i < slice_bound n stop)"

text \<open>\<open>feat[start : stop, :] = 0\<close> and \<open>feat[:, start : stop] = 0\<close>.\<close>

definition zero_time :: "int \<Rightarrow> int \<Rightarrow> 'a::zero tensor \<Rightarrow> 'a tensor" where
  "zero_time start stop M =
     M\<lparr>rows := map (\<lambda>(i, r). if in_slice (size0 M) start stop i then map (\<lambda>_. 0) r else r)
                   (enumerate 0 (rows M))\<rparr>"

definition zero_freq :: "int \<Rightarrow> int \<Rightarrow> 'a::zero tensor \<Rightarrow> 'a tensor" where
  "zero_freq start stop M =
     M\<lparr>rows := map (\<lambda>r. map (\<lambda>(j, x). if in_slice (size1 M) start stop j then 0 else x)
                              (enumerate 0 r))
                   (rows M)\<rparr>"

subsection \<open>State\<close>

text \<open>
  \<open>spec_augment\<close> writes into the tensor it is given, so tensors live in a store and
  \<open>feat\<close> is an address. The state also holds the two generators. The last two fields
  are history variables: the \<open>(t0, t)\<close> and \<open>(f0, f)\<close> of every mask applied so far,
  in order. Nothing reads them.
\<close>

record 'a state =
  heap :: "nat \<Rightarrow> 'a tensor"
  np_random :: "nat stream"
  py_random :: "nat stream"
  time_masks :: "(int \<times> int) list"
  freq_masks :: "(int \<times> int) list"

subsection \<open>The loops of \<open>spec_augment\<close>\<close>

text \<open>One pass through the body of the time-mask loop (lines 145 to 148).\<close>

definition time_mask :: "nat \<Rightarrow> int \<Rightarrow> int \<Rightarrow> 'a::zero state \<Rightarrow> (error + unit) \<times> 'a state" where
  "time_mask feat seq_len T s =
     (let (u, g) = np_random_uniform 0 (real_of_int T) (np_random s);
          t = py_int u;
          s1 = s\<lparr>np_random := g\<rparr>
      in case random_randint 0 (seq_len - t) (py_random s1) of
           Inl e \<Rightarrow> (Inl e, s1)
         | Inr (t0, g') \<Rightarrow>
             (Inr (),
              s1\<lparr>py_random := g',
                 heap := (heap s1)(feat := zero_time t0 (t0 + t) (heap s1 feat)),
                 time_masks := time_masks s1 @ [(t0, t)]\<rparr>))"

text \<open>One pass through the body of the frequency-mask loop (lines 152 to 155).\<close>

definition freq_mask :: "nat \<Rightarrow> int \<Rightarrow> int \<Rightarrow> 'a::zero state \<Rightarrow> (error + unit) \<times> 'a state" where
  "freq_mask feat feat_size F s =
     (let (u, g) = np_random_uniform 0 (real_of_int F) (np_random s);
          f = py_int u;
          s1 = s\<lparr>np_random := g\<rparr>
      in case random_randint 0 (feat_size - f) (py_random s1) of
           Inl e \<Rightarrow> (Inl e, s1)
         | Inr (f0, g') \<Rightarrow>
             (Inr (),
              s1\<lparr>py_random := g',
                 heap := (heap s1)(feat := zero_freq f0 (f0 + f) (heap s1 feat)),
                 freq_masks := freq_masks s1 @ [(f0, f)]\<rparr>))"

text \<open>\<open>for _ in range(n): body\<close>, stopping at the first exception.\<close>

fun for_range :: "nat \<Rightarrow> ('s \<Rightarrow> (error + unit) \<times> 's) \<Rightarrow> 's \<Rightarrow> (error + unit) \<times> 's" where
  "for_range 0 body s = (Inr (), s)"
| "for_range (Suc n) body s =
     (case body s of
        (Inl e, s') \<Rightarrow> (Inl e, s')
      | (Inr _, s') \<Rightarrow> for_range n body s')"

text \<open>
  \<open>spec_augment(feat, T, F, time_mask_num, freq_mask_num)\<close>. \<open>range(n)\<close> is empty for
  \<open>n \<le> 0\<close>, which is \<open>nat n = 0\<close>. The result is the address of \<open>feat\<close>, or the
  exception; the state is returned in both cases, since masks applied before an
  exception stay applied.
\<close>

definition spec_augment ::
  "nat \<Rightarrow> int \<Rightarrow> int \<Rightarrow> int \<Rightarrow> int \<Rightarrow> 'a::zero state \<Rightarrow> (error + nat) \<times> 'a state" where
  "spec_augment feat T F time_mask_num freq_mask_num s =
     (let feat_size = size1 (heap s feat);
          seq_len = size0 (heap s feat)
      in case for_range (nat time_mask_num) (time_mask feat seq_len T) s of
           (Inl e, s1) \<Rightarrow> (Inl e, s1)
         | (Inr _, s1) \<Rightarrow>
             (case for_range (nat freq_mask_num) (freq_mask feat feat_size F) s1 of
                (Inl e, s2) \<Rightarrow> (Inl e, s2)
              | (Inr _, s2) \<Rightarrow> (Inr feat, s2)))"

subsection \<open>What a run has masked\<close>

text \<open>
  An index is covered by a list of spans \<open>(start, width)\<close> when one of the slices
  \<open>start : start + width\<close> selects it; the spans lie within an axis of length \<open>n\<close>
  when each has \<open>0 \<le> start\<close> and \<open>start + width \<le> n\<close>.
\<close>

definition covered :: "int \<Rightarrow> (int \<times> int) list \<Rightarrow> nat \<Rightarrow> bool" where
  "covered n spans i = list_ex (\<lambda>(start, width). in_slice n start (start + width) i) spans"

definition spans_within :: "int \<Rightarrow> (int \<times> int) list \<Rightarrow> bool" where
  "spans_within n spans = list_all (\<lambda>(start, width). 0 \<le> start \<and> start + width \<le> n) spans"

text \<open>The same for spans read as the intervals \<open>[start, start + width)\<close>.\<close>

definition in_spans :: "(int \<times> int) list \<Rightarrow> nat \<Rightarrow> bool" where
  "in_spans spans i = list_ex (\<lambda>(start, width). start \<le> int i \<and> int i < start + width) spans"

text \<open>Invariants of the two loops, for a tensor of \<open>n\<close> time steps and \<open>m\<close> channels.\<close>

definition logs_within :: "int \<Rightarrow> int \<Rightarrow> 'a state \<Rightarrow> bool" where
  "logs_within n m s = (spans_within n (time_masks s) \<and> spans_within m (freq_masks s))"

definition widths_nonneg :: "int \<Rightarrow> int \<Rightarrow> 'a state \<Rightarrow> bool" where
  "widths_nonneg T F s =
     ((0 \<le> T \<longrightarrow> list_all (\<lambda>(start, width). 0 \<le> width) (time_masks s)) \<and>
      (0 \<le> F \<longrightarrow> list_all (\<lambda>(start, width). 0 \<le> width) (freq_masks s)))"

definition masked_from :: "'a::zero tensor \<Rightarrow> nat \<Rightarrow> 'a state \<Rightarrow> bool" where
  "masked_from M0 feat s =
     (same_shape (heap s feat) M0 \<and>
      (\<forall>i < length (rows M0). \<forall>j < length (rows M0 ! i).
         entry (heap s feat) i j =
           (if covered (size0 M0) (time_masks s) i \<or> covered (size1 M0) (freq_masks s) j
            then 0 else entry M0 i j)))"

section \<open>Feature extraction\<close>

subsection \<open>The outside world\<close>

text \<open>
  The extractors read a file and call into numpy, librosa and torch. What these
  return is a parameter of the model: each field is one call as the source makes it,
  with the arguments the source fixes left out.
  \<^item> \<open>np_memmap\<close>: \<open>np.memmap(filepath, dtype='h', mode='r')\<close>, the file as 16-bit
    signed integers, or the exception.
  \<^item> \<open>librosa_load\<close>: the signal of \<open>librosa.core.load(filepath, sr=16000)\<close>.
  \<^item> \<open>effects_split\<close>: \<open>librosa.effects.split(signal, top_db=30)\<close>, pairs
    \<open>(start, end)\<close> of sample indices.
  \<^item> \<open>feature_melspectrogram\<close>: \<open>librosa.feature.melspectrogram(signal, sr=16000,
    n_mels=n_mels, n_fft=400, hop_length=160, window='hamming')\<close>, by signal and
    \<open>n_mels\<close>.
  \<^item> \<open>amplitude_to_db\<close>: \<open>librosa.amplitude_to_db(feat, ref=np.max)\<close>.
  \<^item> \<open>feature_mfcc\<close>: \<open>librosa.feature.mfcc(signal, 16000, hop_length=160,
    n_mfcc=n, n_fft=400, window='hamming')\<close>, by signal and \<open>n\<close>.
  \<^item> \<open>float32\<close>: the rounding of one entry by \<open>torch.FloatTensor\<close>.
\<close>

record env =
  np_memmap :: "string \<Rightarrow> error + 16 word list"
  librosa_load :: "string \<Rightarrow> error + real list"
  effects_split :: "real list \<Rightarrow> error + (nat \<times> nat) list"
  feature_melspectrogram :: "real list \<Rightarrow> int \<Rightarrow> error + real tensor"
  amplitude_to_db :: "real tensor \<Rightarrow> error + real tensor"
  feature_mfcc :: "real list \<Rightarrow> int \<Rightarrow> error + real tensor"
  float32 :: "real \<Rightarrow> real"

text \<open>
  The calls that leave the module, in the order they are made. A call that takes the
  signal is recorded with the signal it was given, and a feature call also with the
  number of bands or coefficients asked for.
\<close>

datatype event =
    Memmap string
  | LoggerInfo string
  | LibrosaLoad string
  | EffectsSplit "real list"
  | FeatureMelspectrogram "real list" int
  | AmplitudeToDb
  | FeatureMfcc "real list" int

text \<open>
  A computation yields the calls it made and either an exception or a value.
  \<open>and_then\<close> runs the rest only after a value.
\<close>

type_synonym 'a outcome = "event list \<times> (error + 'a)"

definition and_then :: "'a outcome \<Rightarrow> ('a \<Rightarrow> 'b outcome) \<Rightarrow> 'b outcome" where
  "and_then m k =
     (case m of
        (ev, Inl e) \<Rightarrow> (ev, Inl e)
      | (ev, Inr x) \<Rightarrow> (case k x of (ev', r) \<Rightarrow> (ev @ ev', r)))"

subsection \<open>Array operations\<close>

text \<open>\<open>signal[start:end]\<close> for indices that are not negative.\<close>

definition py_slice :: "'a list \<Rightarrow> nat \<Rightarrow> nat \<Rightarrow> 'a list" where
  "py_slice xs start end = take (end - start) (drop start xs)"

text \<open>\<open>np.concatenate\<close> raises on an empty list of arrays.\<close>

definition np_concatenate :: "'a list list \<Rightarrow> error + 'a list" where
  "np_concatenate xss =
     (if xss = [] then Inl (ValueError ''need at least one array to concatenate'')
      else Inr (concat xss))"

text \<open>
  What an array contains after \<open>feat[:, ::-1]\<close> and after \<open>np.swapaxes(feat, 0, 1)\<close>,
  the entries of a tensor rounded to 32 bits, and the order of the time steps (first
  axis) reversed.
\<close>

definition reverse_axis1 :: "'a tensor \<Rightarrow> 'a tensor" where
  "reverse_axis1 A = A\<lparr>rows := map rev (rows A)\<rparr>"

definition swapaxes :: "'a tensor \<Rightarrow> 'a tensor" where
  "swapaxes A =
     \<lparr>cols = length (rows A), rows = map (\<lambda>j. map (\<lambda>r. r ! j) (rows A)) [0..<cols A]\<rparr>"

definition round_float32 :: "env \<Rightarrow> real tensor \<Rightarrow> real tensor" where
  "round_float32 env A = A\<lparr>rows := map (map (float32 env)) (rows A)\<rparr>"

definition reverse_axis0 :: "'a tensor \<Rightarrow> 'a tensor" where
  "reverse_axis0 A = A\<lparr>rows := rev (rows A)\<rparr>"

text \<open>
  Reversing and swapping axes do not move data in numpy: they give a view of the same
  memory with other strides, and \<open>torch.FloatTensor\<close> looks at the strides. So an
  \<open>ndarray\<close> is what it contains together with its two strides, counted in entries.
  A freshly computed array, as librosa returns it, is laid out row after row.
\<close>

record 'a ndarray =
  contents :: "'a tensor"
  strides :: "int \<times> int"

definition c_order :: "'a tensor \<Rightarrow> 'a ndarray" where
  "c_order A = \<lparr>contents = A, strides = (int (cols A), 1)\<rparr>"

text \<open>\<open>feat[:, ::-1]\<close>: the second stride changes sign.\<close>

definition reversed_view :: "'a ndarray \<Rightarrow> 'a ndarray" where
  "reversed_view a =
     \<lparr>contents = reverse_axis1 (contents a),
      strides = (fst (strides a), - snd (strides a))\<rparr>"

text \<open>\<open>np.swapaxes(feat, 0, 1)\<close>: the strides change places.\<close>

definition np_swapaxes :: "'a ndarray \<Rightarrow> 'a ndarray" where
  "np_swapaxes a =
     \<lparr>contents = swapaxes (contents a),
      strides = (snd (strides a), fst (strides a))\<rparr>"

text \<open>
  numpy's flag \<open>C_CONTIGUOUS\<close>. Going from the last axis to the first, an axis of
  length 0 makes the array contiguous, an axis of length 1 is skipped, and any other
  axis must have the stride of a row-after-row layout.
\<close>

definition c_contiguous :: "'a ndarray \<Rightarrow> bool" where
  "c_contiguous a =
     (let d0 = length (rows (contents a)); d1 = cols (contents a); (s0, s1) = strides a
      in d0 = 0 \<or> d1 = 0 \<or> ((d1 = 1 \<or> s1 = 1) \<and> (d0 = 1 \<or> s0 = int d1)))"

text \<open>\<open>np.ascontiguousarray\<close> copies only an array whose flag is not set.\<close>

definition np_ascontiguousarray :: "'a ndarray \<Rightarrow> 'a ndarray" where
  "np_ascontiguousarray a = (if c_contiguous a then a else c_order (contents a))"

text \<open>
  \<open>torch.FloatTensor\<close> on an array raises \<open>ValueError\<close> when a stride is negative
  (torch's message is shortened here), and otherwise gives the entries rounded.
\<close>

definition FloatTensor :: "env \<Rightarrow> real ndarray \<Rightarrow> error + real tensor" where
  "FloatTensor env a =
     (if fst (strides a) < 0 \<or> snd (strides a) < 0
      then Inl (ValueError ''At least one stride in the given numpy array is negative'')
      else Inr (round_float32 env (contents a)))"

subsection \<open>The extractors\<close>

text \<open>
  Lines 47 to 57, and again 100 to 110: the signal, or \<open>None\<close> where the function
  returns \<open>None\<close>. The bare \<open>except\<close> catches every exception of \<open>np.memmap\<close>.
\<close>

definition load_signal :: "env \<Rightarrow> string \<Rightarrow> string \<Rightarrow> real list option outcome" where
  "load_signal env filepath format =
     (if format = ''pcm'' then
        (case np_memmap env filepath of
           Inl e \<Rightarrow> ([Memmap filepath, LoggerInfo (filepath @ '' Error Occur !!'')], Inr None)
         | Inr pcm \<Rightarrow> ([Memmap filepath], Inr (Some (map (\<lambda>x. real_of_int (sint x)) pcm))))
      else if format = ''wav'' then
        (case librosa_load env filepath of
           Inl e \<Rightarrow> ([LibrosaLoad filepath], Inl e)
         | Inr signal \<Rightarrow> ([LibrosaLoad filepath], Inr (Some signal)))
      else ([], Inl (ValueError ''Invalid format !!'')))"

text \<open>Lines 59 to 61, and again 112 to 114.\<close>

definition remove_silence :: "env \<Rightarrow> bool \<Rightarrow> real list \<Rightarrow> real list outcome" where
  "remove_silence env del_silence signal =
     (if del_silence then
        and_then ([EffectsSplit signal], effects_split env signal)
          (\<lambda>non_silence_indices.
             ([], np_concatenate (map (\<lambda>(start, end). py_slice signal start end) non_silence_indices)))
      else ([], Inr signal))"

text \<open>
  Lines 67 to 70, and again 117 to 120: the optional reversal, and the conversion
  \<open>torch.FloatTensor(np.ascontiguousarray(np.swapaxes(feat, 0, 1)))\<close>.
\<close>

definition to_tensor :: "env \<Rightarrow> bool \<Rightarrow> real tensor \<Rightarrow> real tensor option outcome" where
  "to_tensor env input_reverse feat =
     (let a = c_order feat;
          a = (if input_reverse then reversed_view a else a)
      in case FloatTensor env (np_ascontiguousarray (np_swapaxes a)) of
           Inl e \<Rightarrow> ([], Inl e)
         | Inr t \<Rightarrow> ([], Inr (Some t)))"

definition get_librosa_melspectrogram ::
  "env \<Rightarrow> string \<Rightarrow> int \<Rightarrow> bool \<Rightarrow> bool \<Rightarrow> string \<Rightarrow> string \<Rightarrow> real tensor option outcome" where
  "get_librosa_melspectrogram env filepath n_mels del_silence input_reverse mel_type format =
     and_then (load_signal env filepath format) (\<lambda>loaded.
       case loaded of
         None \<Rightarrow> ([], Inr None)
       | Some signal \<Rightarrow>
           and_then (remove_silence env del_silence signal) (\<lambda>signal.
           and_then ([FeatureMelspectrogram signal n_mels],
                     feature_melspectrogram env signal n_mels) (\<lambda>feat.
           and_then (if mel_type = ''log_mel'' then ([AmplitudeToDb], amplitude_to_db env feat)
                     else ([], Inr feat)) (\<lambda>feat.
           to_tensor env input_reverse feat))))"

text \<open>The source passes the constant 33 to \<open>librosa.feature.mfcc\<close>, whatever \<open>n_mfcc\<close> is.\<close>

definition get_librosa_mfcc ::
  "env \<Rightarrow> string \<Rightarrow> int \<Rightarrow> bool \<Rightarrow> bool \<Rightarrow> string \<Rightarrow> real tensor option outcome" where
  "get_librosa_mfcc env filepath n_mfcc del_silence input_reverse format =
     and_then (load_signal env filepath format) (\<lambda>loaded.
       case loaded of
         None \<Rightarrow> ([], Inr None)
       | Some signal \<Rightarrow>
           and_then (remove_silence env del_silence signal) (\<lambda>signal.
           and_then ([FeatureMfcc signal 33], feature_mfcc env signal 33) (\<lambda>feat.
           to_tensor env input_reverse feat)))"

subsection \<open>What the libraries promise\<close>

text \<open>
  The shapes librosa documents. A feature call on a signal \<open>y\<close> with \<open>n\<close> bands or
  coefficients gives an array of \<open>n\<close> rows and \<open>1 + len(y) // hop_length\<close> columns
  (frames are centred), the hop length being 160 in both extractors;
  \<open>amplitude_to_db\<close> keeps the shape; \<open>effects.split\<close> gives intervals
  \<open>(start, end)\<close> in ascending order, disjoint, inside the signal.
\<close>

definition feature_shape :: "(real list \<Rightarrow> int \<Rightarrow> error + real tensor) \<Rightarrow> bool" where
  "feature_shape f =
     (\<forall>y n A. f y n = Inr A \<longrightarrow>
        wf_tensor A \<and> int (length (rows A)) = n \<and> cols A = 1 + length y div 160)"

definition db_shape :: "env \<Rightarrow> bool" where
  "db_shape env = (\<forall>A B. amplitude_to_db env A = Inr B \<longrightarrow> same_shape B A)"



section \<open>Example inputs\<close>

text \<open>
  A tensor of four time steps and three channels, and a seed: both \<open>numpy\<close> samples
  are one half, the raw draws of Python's generator are 1 and 5.
\<close>

definition example_feat :: "int tensor" where
  "example_feat = \<lparr>cols = 3, rows = [[1, 2, 3], [4, 5, 6], [7, 8, 9], [10, 11, 12]]\<rparr>"

definition example_state :: "int state" where
  "example_state =
     \<lparr>heap = (\<lambda>_. example_feat),
      np_random = 4503599627370496 ## 4503599627370496 ## sconst 0,
      py_random = 1 ## 5 ## sconst 0,
      time_masks = [],
      freq_masks = []\<rparr>"

text \<open>The state after \<open>spec_augment(feat, T=4, F=2, time_mask_num=1, freq_mask_num=1)\<close>.\<close>

definition example_masked :: "int state" where
  "example_masked =
     \<lparr>heap = (\<lambda>_. example_feat)
               (0 := \<lparr>cols = 3, rows = [[1, 2, 0], [0, 0, 0], [0, 0, 0], [10, 11, 0]]\<rparr>),
      np_random = sconst 0,
      py_random = sconst 0,
      time_masks = [(1, 2)],
      freq_masks = [(2, 1)]\<rparr>"

text \<open>
  A world with three raw files and one WAV file. \<open>a.pcm\<close> holds 320 samples,
  \<open>b.pcm\<close> four, \<open>d.pcm\<close> five; \<open>b.wav\<close> holds the samples of \<open>b.pcm\<close>,
  which its loader divides by 32768. The stand-ins for librosa have the documented
  shapes: a feature entry is ten times its band plus its frame; the silence splitter
  finds the samples at indices 0 and 2 silent in a signal of four samples or more,
  and nothing silent in a shorter one; the decibel conversion subtracts one.
\<close>

definition example_features :: "real list \<Rightarrow> int \<Rightarrow> error + real tensor" where
  "example_features y n =
     (if n < 0 then Inl (LibraryError ''ParameterError'')
      else Inr \<lparr>cols = 1 + length y div 160,
                rows = map (\<lambda>m. map (\<lambda>t. real (10 * m + t)) [0..<1 + length y div 160])
                         [0..<nat n]\<rparr>)"

definition example_env :: env where
  "example_env =
     \<lparr>np_memmap = (\<lambda>p. if p = ''a.pcm'' then Inr (replicate 320 7)
                        else if p = ''b.pcm'' then Inr [1, - 2, 32767, - 32768]
                        else if p = ''d.pcm'' then Inr [10, 20, 30, 40, 50]
                        else Inl (LibraryError ''FileNotFoundError'')),
      librosa_load = (\<lambda>p. if p = ''b.wav''
                          then Inr (map (\<lambda>x. real_of_int (sint x) / 32768)
                                     [1, - 2, 32767, - 32768 :: 16 word])
                          else Inl (LibraryError ''FileNotFoundError'')),
      effects_split = (\<lambda>y. Inr (if length y < 4 then [(0, length y)]
                                 else [(1, 2), (3, length y)])),
      feature_melspectrogram = example_features,
      amplitude_to_db = (\<lambda>A. Inr (A\<lparr>rows := map (map (\<lambda>x. x - 1)) (rows A)\<rparr>)),
      feature_mfcc = example_features,
      float32 = (\<lambda>x. x)\<rparr>"

section \<open>Properties of spectral augmentation\<close>

subsection \<open>The generators\<close>

lemma random_randint_range:
  assumes "random_randint a b g = Inr (r, g')"
  shows "a \<le> r \<and> r \<le> b"
proof -
  from assms have w: "0 < b + 1 - a" and r: "r = a + int (shd g mod nat (b + 1 - a))"
    by (auto simp: random_randint_def Let_def split: if_splits)
  have "shd g mod nat (b + 1 - a) < nat (b + 1 - a)" using w by simp
  then have "int (shd g mod nat (b + 1 - a)) < b + 1 - a" using w by linarith
  with r show ?thesis by simp
qed

lemma sample_range:
  "0 \<le> real (k mod 2 ^ 53) / 2 ^ 53 \<and> real (k mod 2 ^ 53) / 2 ^ 53 < 1"
proof -
  have "k mod 2 ^ 53 < (2 ^ 53 :: nat)" by simp
  then have "real (k mod 2 ^ 53) < real (2 ^ 53 :: nat)" by (simp only: of_nat_less_iff)
  then show ?thesis by simp
qed

lemma width_nonneg:
  assumes "0 \<le> T"
  shows "0 \<le> py_int (fst (np_random_uniform 0 (real_of_int T) g))"
proof -
  have "0 \<le> real_of_int T * (real (shd g mod 2 ^ 53) / 2 ^ 53)"
    using assms sample_range [of "shd g"] by simp
  then show ?thesis by (simp add: py_int_def np_random_uniform_def)
qed

lemma width_largest:
  assumes "0 < T" and "T \<le> 2 ^ 53"
  shows "py_int (fst (np_random_uniform 0 (real_of_int T) (sconst 9007199254740991))) = T - 1"
proof -
  let ?x = "real_of_int T * (9007199254740991 / 9007199254740992)"
  have x: "?x = real_of_int T - real_of_int T / 9007199254740992" by (simp add: field_simps)
  have small: "real_of_int T / 9007199254740992 \<le> 1" using assms(2) by simp
  have pos: "0 < real_of_int T / 9007199254740992" using assms(1) by simp
  have lo: "real_of_int (T - 1) \<le> ?x" using small x by simp
  have hi: "?x < real_of_int (T - 1) + 1" using pos x by simp
  have "\<lfloor>?x\<rfloor> = T - 1" using lo hi by (rule floor_unique)
  moreover have "0 \<le> ?x" using assms(1) by simp
  ultimately show ?thesis by (simp add: py_int_def np_random_uniform_def)
qed

subsection \<open>Shapes and entries\<close>

lemma same_shape_refl: "same_shape M M"
  by (simp add: same_shape_def)

lemma same_shape_trans: "same_shape A B \<Longrightarrow> same_shape B C \<Longrightarrow> same_shape A C"
  by (simp add: same_shape_def)

lemma same_shape_sizes: "same_shape M N \<Longrightarrow> size0 M = size0 N \<and> size1 M = size1 N"
  by (auto simp: same_shape_def size0_def size1_def dest: map_eq_imp_length_eq)

lemma same_shape_row_length:
  assumes a: "same_shape M N" and i: "i < length (rows N)"
  shows "i < length (rows M) \<and> length (rows M ! i) = length (rows N ! i)"
proof -
  from a have m: "map length (rows M) = map length (rows N)" by (simp add: same_shape_def)
  then have l: "length (rows M) = length (rows N)" by (rule map_eq_imp_length_eq)
  from m have "map length (rows M) ! i = map length (rows N) ! i" by simp
  with l i show ?thesis by simp
qed

lemma same_shape_zero_time: "same_shape (zero_time a b M) M"
  by (auto simp: same_shape_def zero_time_def intro!: nth_equalityI simp: nth_enumerate_eq)

lemma same_shape_zero_freq: "same_shape (zero_freq a b M) M"
  by (auto simp: same_shape_def zero_freq_def)

lemma wf_tensor_row:
  "wf_tensor M \<Longrightarrow> i < length (rows M) \<Longrightarrow> length (rows M ! i) = cols M"
  by (simp add: wf_tensor_def list_all_length)

lemma entry_zero_time:
  "i < length (rows M) \<Longrightarrow> j < length (rows M ! i) \<Longrightarrow>
   entry (zero_time a b M) i j = (if in_slice (size0 M) a b i then 0 else entry M i j)"
  by (simp add: entry_def zero_time_def nth_enumerate_eq)

lemma entry_zero_freq:
  "i < length (rows M) \<Longrightarrow> j < length (rows M ! i) \<Longrightarrow>
   entry (zero_freq a b M) i j = (if in_slice (size1 M) a b j then 0 else entry M i j)"
  by (simp add: entry_def zero_freq_def nth_enumerate_eq)

lemma in_slice_interval:
  assumes "0 \<le> a" and "0 \<le> w" and "int i < n"
  shows "in_slice n a (a + w) i = (a \<le> int i \<and> int i < a + w)"
  using assms by (auto simp: in_slice_def slice_bound_def)

lemma covered_snoc:
  "covered n (spans @ [(a, w)]) i = (covered n spans i \<or> in_slice n a (a + w) i)"
  by (auto simp: covered_def)

lemma spans_within_snoc:
  "spans_within n (spans @ [(a, w)]) = (spans_within n spans \<and> 0 \<le> a \<and> a + w \<le> n)"
  by (auto simp: spans_within_def)

lemma spans_within_iff:
  "spans_within n spans = (\<forall>(start, width) \<in> set spans. 0 \<le> start \<and> start + width \<le> n)"
  unfolding spans_within_def list_all_iff ..

lemma covered_interval:
  assumes "spans_within n spans" and "list_all (\<lambda>(start, width). 0 \<le> width) spans"
    and "int i < n"
  shows "covered n spans i = in_spans spans i"
  using assms
proof (induction spans)
  case Nil
  then show ?case by (simp add: covered_def in_spans_def)
next
  case (Cons p spans)
  obtain a w where p: "p = (a, w)" by (cases p)
  from Cons.prems p have a: "0 \<le> a" and w: "0 \<le> w"
    and rest: "spans_within n spans" "list_all (\<lambda>(start, width). 0 \<le> width) spans"
    by (simp_all add: spans_within_def)
  have "covered n spans i = in_spans spans i"
    using Cons.IH [OF rest Cons.prems(3)] .
  then show ?case
    using in_slice_interval [OF a w Cons.prems(3)]
    by (simp add: covered_def in_spans_def p)
qed

subsection \<open>One pass through a loop body\<close>

lemma time_mask_Inl:
  "time_mask feat L T s = (Inl e, s') \<Longrightarrow>
     heap s' = heap s \<and> time_masks s' = time_masks s \<and> freq_masks s' = freq_masks s"
  by (auto simp: time_mask_def np_random_uniform_def Let_def split: sum.splits prod.splits)

lemma time_mask_Inr:
  assumes "time_mask feat L T s = (Inr u, s')"
  shows "\<exists>t0 t. 0 \<le> t0 \<and> t0 + t \<le> L \<and> (0 \<le> T \<longrightarrow> 0 \<le> t) \<and>
           heap s' = (heap s)(feat := zero_time t0 (t0 + t) (heap s feat)) \<and>
           time_masks s' = time_masks s @ [(t0, t)] \<and> freq_masks s' = freq_masks s"
proof -
  let ?t = "py_int (fst (np_random_uniform 0 (real_of_int T) (np_random s)))"
  from assms obtain t0 g' where
    r: "random_randint 0 (L - ?t) (py_random s) = Inr (t0, g')"
    and s': "s' = s\<lparr>np_random := snd (np_random_uniform 0 (real_of_int T) (np_random s)),
                   py_random := g',
                   heap := (heap s)(feat := zero_time t0 (t0 + ?t) (heap s feat)),
                   time_masks := time_masks s @ [(t0, ?t)]\<rparr>"
    by (auto simp: time_mask_def Let_def split: sum.splits prod.splits)
  from random_randint_range [OF r] have "0 \<le> t0" "t0 + ?t \<le> L" by simp_all
  moreover have "0 \<le> T \<longrightarrow> 0 \<le> ?t" using width_nonneg by simp
  ultimately show ?thesis using s' by auto
qed

lemma freq_mask_Inl:
  "freq_mask feat L F s = (Inl e, s') \<Longrightarrow>
     heap s' = heap s \<and> time_masks s' = time_masks s \<and> freq_masks s' = freq_masks s"
  by (auto simp: freq_mask_def np_random_uniform_def Let_def split: sum.splits prod.splits)

lemma freq_mask_Inr:
  assumes "freq_mask feat L F s = (Inr u, s')"
  shows "\<exists>f0 f. 0 \<le> f0 \<and> f0 + f \<le> L \<and> (0 \<le> F \<longrightarrow> 0 \<le> f) \<and>
           heap s' = (heap s)(feat := zero_freq f0 (f0 + f) (heap s feat)) \<and>
           freq_masks s' = freq_masks s @ [(f0, f)] \<and> time_masks s' = time_masks s"
proof -
  let ?f = "py_int (fst (np_random_uniform 0 (real_of_int F) (np_random s)))"
  from assms obtain f0 g' where
    r: "random_randint 0 (L - ?f) (py_random s) = Inr (f0, g')"
    and s': "s' = s\<lparr>np_random := snd (np_random_uniform 0 (real_of_int F) (np_random s)),
                   py_random := g',
                   heap := (heap s)(feat := zero_freq f0 (f0 + ?f) (heap s feat)),
                   freq_masks := freq_masks s @ [(f0, ?f)]\<rparr>"
    by (auto simp: freq_mask_def Let_def split: sum.splits prod.splits)
  from random_randint_range [OF r] have "0 \<le> f0" "f0 + ?f \<le> L" by simp_all
  moreover have "0 \<le> F \<longrightarrow> 0 \<le> ?f" using width_nonneg by simp
  ultimately show ?thesis using s' by auto
qed

lemma time_mask_raises:
  assumes "L < py_int (fst (np_random_uniform 0 (real_of_int T) (np_random s)))"
  shows "fst (time_mask feat L T s) = Inl (ValueError ''empty range for randrange()'')"
  using assms by (simp add: time_mask_def Let_def random_randint_def case_prod_beta)

lemma freq_mask_raises:
  assumes "L < py_int (fst (np_random_uniform 0 (real_of_int F) (np_random s)))"
  shows "fst (freq_mask feat L F s) = Inl (ValueError ''empty range for randrange()'')"
  using assms by (simp add: freq_mask_def Let_def random_randint_def case_prod_beta)

subsection \<open>The loops\<close>

lemma for_range_invariant:
  assumes step: "\<And>s r s'. P s \<Longrightarrow> body s = (r, s') \<Longrightarrow> P s'"
  shows "P s \<Longrightarrow> for_range n body s = (r, s') \<Longrightarrow> P s'"
proof (induction n arbitrary: s)
  case 0
  then show ?case by simp
next
  case (Suc n)
  obtain r1 s1 where b: "body s = (r1, s1)" by (cases "body s")
  have P1: "P s1" using step [OF Suc.prems(1) b] .
  show ?case
  proof (cases r1)
    case (Inl e)
    with Suc.prems(2) b have "s' = s1" by simp
    with P1 show ?thesis by simp
  next
    case (Inr u)
    with Suc.prems(2) b have "for_range n body s1 = (r, s')" by simp
    from Suc.IH [OF P1 this] show ?thesis .
  qed
qed

lemma for_range_raises:
  assumes "0 < n" and "fst (body s) = Inl e"
  shows "fst (for_range n body s) = Inl e"
proof -
  from assms(1) obtain m where n: "n = Suc m" by (cases n) simp_all
  obtain r1 s1 where b: "body s = (r1, s1)" by (cases "body s")
  with assms(2) have "r1 = Inl e" by simp
  with b n show ?thesis by simp
qed

lemma spec_augment_invariant:
  assumes t: "\<And>s r s'. P s \<Longrightarrow> time_mask feat (size0 (heap s0 feat)) T s = (r, s') \<Longrightarrow> P s'"
    and f: "\<And>s r s'. P s \<Longrightarrow> freq_mask feat (size1 (heap s0 feat)) F s = (r, s') \<Longrightarrow> P s'"
    and init: "P s0"
    and run: "spec_augment feat T F tn fn s0 = (r, s')"
  shows "P s'"
proof -
  obtain r1 s1 where l1:
    "for_range (nat tn) (time_mask feat (size0 (heap s0 feat)) T) s0 = (r1, s1)"
    by (cases "for_range (nat tn) (time_mask feat (size0 (heap s0 feat)) T) s0")
  have P1: "P s1" using for_range_invariant [where P = P, OF t init l1] .
  show ?thesis
  proof (cases r1)
    case (Inl e)
    with run l1 have "s' = s1" by (simp add: spec_augment_def)
    with P1 show ?thesis by simp
  next
    case (Inr u)
    obtain r2 s2 where l2:
      "for_range (nat fn) (freq_mask feat (size1 (heap s0 feat)) F) s1 = (r2, s2)"
      by (cases "for_range (nat fn) (freq_mask feat (size1 (heap s0 feat)) F) s1")
    have P2: "P s2" using for_range_invariant [where P = P, OF f P1 l2] .
    from run l1 l2 Inr have "s' = s2"
      by (cases r2) (simp_all add: spec_augment_def)
    with P2 show ?thesis by simp
  qed
qed

subsection \<open>Invariants\<close>

lemma logs_within_time_mask:
  assumes inv: "logs_within n m s" and run: "time_mask feat n T s = (r, s')"
  shows "logs_within n m s'"
proof (cases r)
  case (Inl e)
  with run time_mask_Inl [of feat n T s e s'] inv show ?thesis
    by (simp add: logs_within_def)
next
  case (Inr u)
  with run time_mask_Inr [of feat n T s u s'] obtain t0 t where
    "0 \<le> t0" "t0 + t \<le> n" "time_masks s' = time_masks s @ [(t0, t)]"
    "freq_masks s' = freq_masks s"
    by blast
  with inv show ?thesis by (simp add: logs_within_def spans_within_snoc)
qed

lemma logs_within_freq_mask:
  assumes inv: "logs_within n m s" and run: "freq_mask feat m F s = (r, s')"
  shows "logs_within n m s'"
proof (cases r)
  case (Inl e)
  with run freq_mask_Inl [of feat m F s e s'] inv show ?thesis
    by (simp add: logs_within_def)
next
  case (Inr u)
  with run freq_mask_Inr [of feat m F s u s'] obtain f0 f where
    "0 \<le> f0" "f0 + f \<le> m" "freq_masks s' = freq_masks s @ [(f0, f)]"
    "time_masks s' = time_masks s"
    by blast
  with inv show ?thesis by (simp add: logs_within_def spans_within_snoc)
qed

lemma widths_nonneg_time_mask:
  assumes inv: "widths_nonneg T F s" and run: "time_mask feat n T s = (r, s')"
  shows "widths_nonneg T F s'"
proof (cases r)
  case (Inl e)
  with run time_mask_Inl [of feat n T s e s'] inv show ?thesis
    by (simp add: widths_nonneg_def)
next
  case (Inr u)
  with run time_mask_Inr [of feat n T s u s'] obtain t0 t where
    "0 \<le> T \<longrightarrow> 0 \<le> t" "time_masks s' = time_masks s @ [(t0, t)]"
    "freq_masks s' = freq_masks s"
    by blast
  with inv show ?thesis by (simp add: widths_nonneg_def)
qed

lemma widths_nonneg_freq_mask:
  assumes inv: "widths_nonneg T F s" and run: "freq_mask feat m F s = (r, s')"
  shows "widths_nonneg T F s'"
proof (cases r)
  case (Inl e)
  with run freq_mask_Inl [of feat m F s e s'] inv show ?thesis
    by (simp add: widths_nonneg_def)
next
  case (Inr u)
  with run freq_mask_Inr [of feat m F s u s'] obtain f0 f where
    "0 \<le> F \<longrightarrow> 0 \<le> f" "freq_masks s' = freq_masks s @ [(f0, f)]"
    "time_masks s' = time_masks s"
    by blast
  with inv show ?thesis by (simp add: widths_nonneg_def)
qed

lemma masked_from_init:
  "time_masks s = [] \<Longrightarrow> freq_masks s = [] \<Longrightarrow> masked_from (heap s feat) feat s"
  by (simp add: masked_from_def same_shape_refl covered_def)

lemma masked_from_time_mask:
  assumes inv: "masked_from M0 feat s" and run: "time_mask feat L T s = (r, s')"
  shows "masked_from M0 feat s'"
proof (cases r)
  case (Inl e)
  with run time_mask_Inl [of feat L T s e s'] inv show ?thesis
    by (simp add: masked_from_def)
next
  case (Inr u)
  with run time_mask_Inr [of feat L T s u s'] obtain t0 t where
    h: "heap s' = (heap s)(feat := zero_time t0 (t0 + t) (heap s feat))"
    and tl: "time_masks s' = time_masks s @ [(t0, t)]" and fl: "freq_masks s' = freq_masks s"
    by blast
  from inv have sh: "same_shape (heap s feat) M0" by (simp add: masked_from_def)
  have sh': "same_shape (heap s' feat) M0"
    using h sh same_shape_trans [OF same_shape_zero_time sh] by simp
  have sz: "size0 (heap s feat) = size0 M0" using same_shape_sizes [OF sh] by simp
  have "entry (heap s' feat) i j =
           (if covered (size0 M0) (time_masks s') i \<or> covered (size1 M0) (freq_masks s') j
            then 0 else entry M0 i j)"
    if i: "i < length (rows M0)" and j: "j < length (rows M0 ! i)" for i j
  proof -
    from same_shape_row_length [OF sh i] j
    have i': "i < length (rows (heap s feat))" and j': "j < length (rows (heap s feat) ! i)"
      by simp_all
    from inv i j have old: "entry (heap s feat) i j =
           (if covered (size0 M0) (time_masks s) i \<or> covered (size1 M0) (freq_masks s) j
            then 0 else entry M0 i j)"
      by (simp add: masked_from_def)
    show ?thesis
      using entry_zero_time [OF i' j', of t0 "t0 + t"] old
      by (simp add: h tl fl sz covered_snoc)
  qed
  with sh' show ?thesis by (simp add: masked_from_def)
qed

lemma masked_from_freq_mask:
  assumes inv: "masked_from M0 feat s" and run: "freq_mask feat L F s = (r, s')"
  shows "masked_from M0 feat s'"
proof (cases r)
  case (Inl e)
  with run freq_mask_Inl [of feat L F s e s'] inv show ?thesis
    by (simp add: masked_from_def)
next
  case (Inr u)
  with run freq_mask_Inr [of feat L F s u s'] obtain f0 f where
    h: "heap s' = (heap s)(feat := zero_freq f0 (f0 + f) (heap s feat))"
    and fl: "freq_masks s' = freq_masks s @ [(f0, f)]" and tl: "time_masks s' = time_masks s"
    by blast
  from inv have sh: "same_shape (heap s feat) M0" by (simp add: masked_from_def)
  have sh': "same_shape (heap s' feat) M0"
    using h sh same_shape_trans [OF same_shape_zero_freq sh] by simp
  have sz: "size1 (heap s feat) = size1 M0" using same_shape_sizes [OF sh] by simp
  have "entry (heap s' feat) i j =
           (if covered (size0 M0) (time_masks s') i \<or> covered (size1 M0) (freq_masks s') j
            then 0 else entry M0 i j)"
    if i: "i < length (rows M0)" and j: "j < length (rows M0 ! i)" for i j
  proof -
    from same_shape_row_length [OF sh i] j
    have i': "i < length (rows (heap s feat))" and j': "j < length (rows (heap s feat) ! i)"
      by simp_all
    from inv i j have old: "entry (heap s feat) i j =
           (if covered (size0 M0) (time_masks s) i \<or> covered (size1 M0) (freq_masks s) j
            then 0 else entry M0 i j)"
      by (simp add: masked_from_def)
    show ?thesis
      using entry_zero_freq [OF i' j', of f0 "f0 + f"] old
      by (simp add: h tl fl sz covered_snoc)
  qed
  with sh' show ?thesis by (simp add: masked_from_def)
qed

lemma spec_augment_logs_within:
  assumes "spec_augment feat T F time_mask_num freq_mask_num s = (r, s')"
    and "time_masks s = []" and "freq_masks s = []"
  shows "logs_within (size0 (heap s feat)) (size1 (heap s feat)) s'"
proof -
  let ?P = "logs_within (size0 (heap s feat)) (size1 (heap s feat))"
  have init: "?P s"
    using assms(2,3) by (simp add: logs_within_def spans_within_def)
  have t: "\<And>s1 r1 s2. ?P s1 \<Longrightarrow> time_mask feat (size0 (heap s feat)) T s1 = (r1, s2) \<Longrightarrow> ?P s2"
    by (rule logs_within_time_mask)
  have f: "\<And>s1 r1 s2. ?P s1 \<Longrightarrow> freq_mask feat (size1 (heap s feat)) F s1 = (r1, s2) \<Longrightarrow> ?P s2"
    by (rule logs_within_freq_mask)
  show "?P s'"
    by (rule spec_augment_invariant [where P = ?P, OF t f init assms(1)])
qed

lemma spec_augment_widths_nonneg:
  assumes "spec_augment feat T F time_mask_num freq_mask_num s = (r, s')"
    and "time_masks s = []" and "freq_masks s = []"
  shows "widths_nonneg T F s'"
proof -
  let ?P = "widths_nonneg T F"
  have init: "?P s"
    using assms(2,3) by (simp add: widths_nonneg_def)
  have t: "\<And>s1 r1 s2. ?P s1 \<Longrightarrow> time_mask feat (size0 (heap s feat)) T s1 = (r1, s2) \<Longrightarrow> ?P s2"
    by (rule widths_nonneg_time_mask)
  have f: "\<And>s1 r1 s2. ?P s1 \<Longrightarrow> freq_mask feat (size1 (heap s feat)) F s1 = (r1, s2) \<Longrightarrow> ?P s2"
    by (rule widths_nonneg_freq_mask)
  show "?P s'"
    by (rule spec_augment_invariant [where P = ?P, OF t f init assms(1)])
qed

lemma spec_augment_masked_from:
  assumes "spec_augment feat T F time_mask_num freq_mask_num s = (r, s')"
    and "time_masks s = []" and "freq_masks s = []"
  shows "masked_from (heap s feat) feat s'"
proof -
  let ?P = "masked_from (heap s feat) feat"
  have init: "?P s" using assms(2,3) by (rule masked_from_init)
  have t: "\<And>s1 r1 s2. ?P s1 \<Longrightarrow> time_mask feat (size0 (heap s feat)) T s1 = (r1, s2) \<Longrightarrow> ?P s2"
    by (rule masked_from_time_mask)
  have f: "\<And>s1 r1 s2. ?P s1 \<Longrightarrow> freq_mask feat (size1 (heap s feat)) F s1 = (r1, s2) \<Longrightarrow> ?P s2"
    by (rule masked_from_freq_mask)
  show "?P s'"
    by (rule spec_augment_invariant [where P = ?P, OF t f init assms(1)])
qed

lemma example_run:
  "spec_augment 0 4 2 1 1 example_state = (Inr 0, example_masked)"
  by (simp add: spec_augment_def example_state_def example_masked_def example_feat_def
      time_mask_def freq_mask_def np_random_uniform_def py_int_def random_randint_def
      zero_time_def zero_freq_def in_slice_def slice_bound_def size0_def size1_def
      Let_def fun_eq_iff)

lemma spec_augment_time_raises:
  assumes "fst (for_range (nat tn) (time_mask feat (size0 (heap s feat)) T) s) = Inl e"
  shows "fst (spec_augment feat T F tn fn s) = Inl e"
proof -
  obtain r1 s1 where l1:
    "for_range (nat tn) (time_mask feat (size0 (heap s feat)) T) s = (r1, s1)"
    by (cases "for_range (nat tn) (time_mask feat (size0 (heap s feat)) T) s")
  with assms have "r1 = Inl e" by simp
  with l1 show ?thesis by (simp add: spec_augment_def)
qed

lemma spec_augment_freq_raises:
  assumes "nat tn = 0"
    and "fst (for_range (nat fn) (freq_mask feat (size1 (heap s feat)) F) s) = Inl e"
  shows "fst (spec_augment feat T F tn fn s) = Inl e"
proof -
  obtain r2 s2 where l2:
    "for_range (nat fn) (freq_mask feat (size1 (heap s feat)) F) s = (r2, s2)"
    by (cases "for_range (nat fn) (freq_mask feat (size1 (heap s feat)) F) s")
  with assms(2) have "r2 = Inl e" by simp
  with l2 assms(1) show ?thesis by (simp add: spec_augment_def)
qed

subsection \<open>Masks stay within the tensor\<close>

text \<open>
  C1. Start \<open>spec_augment\<close> with empty histories, on any tensor, with any bounds \<open>T\<close>
  and \<open>F\<close> (also larger than the tensor), any mask counts and any two generators.
  Whether the call returns or raises, every time mask \<open>(t0, t)\<close> it has applied has
  \<open>0 \<le> t0\<close> and \<open>t0 + t \<le> feat.size(0)\<close>, and every frequency mask \<open>(f0, f)\<close> has
  \<open>0 \<le> f0\<close> and \<open>f0 + f \<le> feat.size(1)\<close>.
\<close>

theorem spec_augment_masks_within_bounds:
  assumes "spec_augment feat T F time_mask_num freq_mask_num s = (r, s')"
    and "time_masks s = []" and "freq_masks s = []"
  shows "(\<forall>(t0, t) \<in> set (time_masks s'). 0 \<le> t0 \<and> t0 + t \<le> size0 (heap s feat)) \<and>
         (\<forall>(f0, f) \<in> set (freq_masks s'). 0 \<le> f0 \<and> f0 + f \<le> size1 (heap s feat))"
  using spec_augment_logs_within [OF assms]
  unfolding logs_within_def spans_within_iff .

theorem spec_augment_masks_within_bounds_witness:
  "spec_augment 0 4 2 1 1 example_state = (Inr 0, example_masked) \<and>
   time_masks example_state = [] \<and> freq_masks example_state = [] \<and>
   time_masks example_masked = [(1, 2)] \<and> freq_masks example_masked = [(2, 1)] \<and>
   (0::int) \<le> 1 \<and> 1 + 2 \<le> size0 (heap example_state 0) \<and>
   (0::int) \<le> 2 \<and> 2 + 1 \<le> size1 (heap example_state 0)"
proof -
  have e: "time_masks example_state = []" "freq_masks example_state = []"
    by (simp_all add: example_state_def)
  have m: "time_masks example_masked = [(1, 2)]" "freq_masks example_masked = [(2, 1)]"
    by (simp_all add: example_masked_def)
  show ?thesis
    using spec_augment_masks_within_bounds [OF example_run e] example_run e m
    by simp
qed

subsection \<open>No masks\<close>

text \<open>
  C7. With \<open>time_mask_num = 0\<close> and \<open>freq_mask_num = 0\<close>, \<open>spec_augment\<close> returns the
  address it was given and leaves the whole state as it was: every tensor in the
  store, so every entry of \<open>feat\<close>, and both generators, so no draw is made.
\<close>

theorem spec_augment_no_masks:
  "spec_augment feat T F 0 0 s = (Inr feat, s)"
  by (simp add: spec_augment_def)

subsection \<open>What is changed\<close>

text \<open>
  C8. When \<open>spec_augment\<close>, started with empty histories on a rectangular tensor,
  returns, an entry \<open>(i, j)\<close> of the tensor is zero if a time mask selects \<open>i\<close> or a
  frequency mask selects \<open>j\<close>, and has its original value otherwise. A mask
  \<open>(start, width)\<close> selects what the slice \<open>start : start + width\<close> selects; for
  bounds \<open>T\<close> and \<open>F\<close> that are not negative these are the indices of the interval
  \<open>[start, start + width)\<close>.
\<close>

theorem spec_augment_frame:
  assumes "spec_augment feat T F time_mask_num freq_mask_num s = (Inr r, s')"
    and "time_masks s = []" and "freq_masks s = []"
    and "wf_tensor (heap s feat)"
    and "i < length (rows (heap s feat))" and "j < cols (heap s feat)"
  shows "entry (heap s' feat) i j =
           (if covered (size0 (heap s feat)) (time_masks s') i \<or>
               covered (size1 (heap s feat)) (freq_masks s') j
            then 0 else entry (heap s feat) i j) \<and>
         (0 \<le> T \<and> 0 \<le> F \<longrightarrow>
            entry (heap s' feat) i j =
              (if in_spans (time_masks s') i \<or> in_spans (freq_masks s') j
               then 0 else entry (heap s feat) i j))"
proof -
  have j': "j < length (rows (heap s feat) ! i)"
    using wf_tensor_row [OF assms(4,5)] assms(6) by simp
  have slices: "entry (heap s' feat) i j =
           (if covered (size0 (heap s feat)) (time_masks s') i \<or>
               covered (size1 (heap s feat)) (freq_masks s') j
            then 0 else entry (heap s feat) i j)"
    using spec_augment_masked_from [OF assms(1,2,3)] assms(5) j'
    by (simp add: masked_from_def)
  have within: "spans_within (size0 (heap s feat)) (time_masks s')"
    "spans_within (size1 (heap s feat)) (freq_masks s')"
    using spec_augment_logs_within [OF assms(1,2,3)] by (simp_all add: logs_within_def)
  have i0: "int i < size0 (heap s feat)" using assms(5) by (simp add: size0_def)
  have j1: "int j < size1 (heap s feat)" using assms(6) by (simp add: size1_def)
  have "entry (heap s' feat) i j =
              (if in_spans (time_masks s') i \<or> in_spans (freq_masks s') j
               then 0 else entry (heap s feat) i j)"
    if "0 \<le> T" and "0 \<le> F"
  proof -
    from that spec_augment_widths_nonneg [OF assms(1,2,3)]
    have w: "list_all (\<lambda>(start, width). 0 \<le> width) (time_masks s')"
      "list_all (\<lambda>(start, width). 0 \<le> width) (freq_masks s')"
      by (simp_all add: widths_nonneg_def)
    show ?thesis
      using slices covered_interval [OF within(1) w(1) i0] covered_interval [OF within(2) w(2) j1]
      by simp
  qed
  with slices show ?thesis by simp
qed

theorem spec_augment_frame_witness:
  "spec_augment 0 4 2 1 1 example_state = (Inr 0, example_masked) \<and>
   wf_tensor (heap example_state 0) \<and>
   entry (heap example_state 0) 0 1 = 2 \<and> entry (heap example_masked 0) 0 1 = 2 \<and>
   entry (heap example_state 0) 1 1 = 5 \<and> entry (heap example_masked 0) 1 1 = 0 \<and>
   entry (heap example_state 0) 3 2 = 12 \<and> entry (heap example_masked 0) 3 2 = 0"
proof -
  have e: "time_masks example_state = []" "freq_masks example_state = []"
    by (simp_all add: example_state_def)
  have wf: "wf_tensor (heap example_state 0)"
    by (simp add: example_state_def example_feat_def wf_tensor_def)
  have i0: "0 < length (rows (heap example_state 0))"
    and i1: "1 < length (rows (heap example_state 0))"
    and i3: "3 < length (rows (heap example_state 0))"
    and j1: "1 < cols (heap example_state 0)"
    and j2: "2 < cols (heap example_state 0)"
    by (simp_all add: example_state_def example_feat_def)
  have old: "entry (heap example_state 0) 0 1 = 2" "entry (heap example_state 0) 1 1 = 5"
    "entry (heap example_state 0) 3 2 = 12"
    by (simp_all add: example_state_def example_feat_def entry_def)
  have logs: "in_spans (time_masks example_masked) 0 = False"
    "in_spans (freq_masks example_masked) 1 = False"
    "in_spans (time_masks example_masked) 1 = True"
    "in_spans (freq_masks example_masked) 2 = True"
    by (simp_all add: example_masked_def in_spans_def)
  show ?thesis
    using spec_augment_frame [OF example_run e wf i0 j1]
      spec_augment_frame [OF example_run e wf i1 j1]
      spec_augment_frame [OF example_run e wf i3 j2]
      example_run wf old logs
    by simp
qed

subsection \<open>A mask wider than the tensor\<close>

text \<open>
  C9. Nothing checks that a sampled width fits. Whenever at least one time mask is
  asked for and the tensor has fewer than \<open>T - 1\<close> time steps, some draw of the
  \<open>numpy\<close> generator gives a width \<open>t > feat.size(0)\<close>, and \<open>spec_augment\<close> raises the
  \<open>ValueError\<close> of \<open>random.randint\<close> on an empty range instead of returning. The same
  holds for the first frequency mask, shown here when no time mask is asked for, on
  a tensor of fewer than \<open>F - 1\<close> channels.
\<close>

theorem spec_augment_raises_on_wide_mask:
  "(0 < time_mask_num \<and> size0 (heap s feat) + 1 < T \<and> T \<le> 2 ^ 53 \<longrightarrow>
      (\<exists>g. size0 (heap s feat)
              < py_int (fst (np_random_uniform 0 (real_of_int T) g)) \<and>
            fst (spec_augment feat T F time_mask_num freq_mask_num (s\<lparr>np_random := g\<rparr>))
              = Inl (ValueError ''empty range for randrange()''))) \<and>
   (time_mask_num \<le> 0 \<and> 0 < freq_mask_num \<and> size1 (heap s feat) + 1 < F \<and> F \<le> 2 ^ 53 \<longrightarrow>
      (\<exists>g. size1 (heap s feat)
              < py_int (fst (np_random_uniform 0 (real_of_int F) g)) \<and>
            fst (spec_augment feat T F time_mask_num freq_mask_num (s\<lparr>np_random := g\<rparr>))
              = Inl (ValueError ''empty range for randrange()'')))"
proof (intro conjI impI)
  let ?g = "sconst 9007199254740991 :: nat stream"
  let ?e = "ValueError ''empty range for randrange()''"
  let ?s = "s\<lparr>np_random := ?g\<rparr>"
  {
    assume a: "0 < time_mask_num \<and> size0 (heap s feat) + 1 < T \<and> T \<le> 2 ^ 53"
    have "0 \<le> size0 (heap s feat)" by (simp add: size0_def)
    with a have T: "0 < T" by simp
    from a have w: "py_int (fst (np_random_uniform 0 (real_of_int T) ?g)) = T - 1"
      using width_largest [OF T] by simp
    with a have wide: "size0 (heap s feat)
        < py_int (fst (np_random_uniform 0 (real_of_int T) ?g))" by simp
    then have "fst (time_mask feat (size0 (heap s feat)) T ?s) = Inl ?e"
      using time_mask_raises [of "size0 (heap s feat)" T ?s feat] by simp
    moreover from a have "0 < nat time_mask_num" by simp
    ultimately have "fst (for_range (nat time_mask_num)
        (time_mask feat (size0 (heap s feat)) T) ?s) = Inl ?e"
      by (rule for_range_raises [rotated])
    then have "fst (spec_augment feat T F time_mask_num freq_mask_num ?s) = Inl ?e"
      using spec_augment_time_raises [of time_mask_num feat ?s T ?e F freq_mask_num] by simp
    with wide show "\<exists>g. size0 (heap s feat)
              < py_int (fst (np_random_uniform 0 (real_of_int T) g)) \<and>
            fst (spec_augment feat T F time_mask_num freq_mask_num (s\<lparr>np_random := g\<rparr>))
              = Inl ?e"
      by blast
  }
  {
    assume a: "time_mask_num \<le> 0 \<and> 0 < freq_mask_num \<and> size1 (heap s feat) + 1 < F \<and>
      F \<le> 2 ^ 53"
    have "0 \<le> size1 (heap s feat)" by (simp add: size1_def)
    with a have F: "0 < F" by simp
    from a have w: "py_int (fst (np_random_uniform 0 (real_of_int F) ?g)) = F - 1"
      using width_largest [OF F] by simp
    with a have wide: "size1 (heap s feat)
        < py_int (fst (np_random_uniform 0 (real_of_int F) ?g))" by simp
    then have "fst (freq_mask feat (size1 (heap s feat)) F ?s) = Inl ?e"
      using freq_mask_raises [of "size1 (heap s feat)" F ?s feat] by simp
    moreover from a have "0 < nat freq_mask_num" by simp
    ultimately have "fst (for_range (nat freq_mask_num)
        (freq_mask feat (size1 (heap s feat)) F) ?s) = Inl ?e"
      by (rule for_range_raises [rotated])
    moreover from a have "nat time_mask_num = 0" by simp
    ultimately have "fst (spec_augment feat T F time_mask_num freq_mask_num ?s) = Inl ?e"
      using spec_augment_freq_raises [of time_mask_num freq_mask_num feat ?s F ?e T] by simp
    with wide show "\<exists>g. size1 (heap s feat)
              < py_int (fst (np_random_uniform 0 (real_of_int F) g)) \<and>
            fst (spec_augment feat T F time_mask_num freq_mask_num (s\<lparr>np_random := g\<rparr>))
              = Inl ?e"
      by blast
  }
qed

theorem spec_augment_raises_on_wide_mask_witness:
  "(0::int) < 2 \<and> size0 (heap example_state 0) + 1 < 70 \<and> (70::int) \<le> 2 ^ 53 \<and>
   (\<exists>g. size0 (heap example_state 0) < py_int (fst (np_random_uniform 0 (real_of_int 70) g)) \<and>
         fst (spec_augment 0 70 20 2 2 (example_state\<lparr>np_random := g\<rparr>))
           = Inl (ValueError ''empty range for randrange()'')) \<and>
   size1 (heap example_state 0) + 1 < 20 \<and>
   (\<exists>g. size1 (heap example_state 0) < py_int (fst (np_random_uniform 0 (real_of_int 20) g)) \<and>
         fst (spec_augment 0 70 20 0 2 (example_state\<lparr>np_random := g\<rparr>))
           = Inl (ValueError ''empty range for randrange()'')) \<and>
   fst (spec_augment 0 70 20 2 2 example_state) = Inl (ValueError ''empty range for randrange()'')"
proof -
  have sz: "size0 (heap example_state 0) = 4" "size1 (heap example_state 0) = 3"
    by (simp_all add: example_state_def example_feat_def size0_def size1_def)
  have "py_int (fst (np_random_uniform 0 (real_of_int 70) (np_random example_state))) = 35"
    by (simp add: example_state_def np_random_uniform_def py_int_def)
  then have "fst (time_mask 0 (size0 (heap example_state 0)) 70 example_state)
      = Inl (ValueError ''empty range for randrange()'')"
    using time_mask_raises [of "size0 (heap example_state 0)" 70 example_state 0] sz
    by simp
  then have "fst (for_range (nat 2) (time_mask 0 (size0 (heap example_state 0)) 70) example_state)
      = Inl (ValueError ''empty range for randrange()'')"
    by (intro for_range_raises) simp_all
  then have run: "fst (spec_augment 0 70 20 2 2 example_state)
      = Inl (ValueError ''empty range for randrange()'')"
    by (rule spec_augment_time_raises)
  show ?thesis
    using spec_augment_raises_on_wide_mask [of 2 example_state 0 70 20 2]
      spec_augment_raises_on_wide_mask [of 0 example_state 0 70 20 2]
      sz run
    by simp
qed

section \<open>Properties of the extractors\<close>

subsection \<open>Sequencing\<close>

lemma and_then_Inr:
  "and_then m k = (ev, Inr y) \<longleftrightarrow>
     (\<exists>ev1 x ev2. m = (ev1, Inr x) \<and> k x = (ev2, Inr y) \<and> ev = ev1 @ ev2)"
  by (cases m) (auto simp: and_then_def split: sum.splits prod.splits)

subsection \<open>Reversal and transposition\<close>

lemma swapaxes_reverse_rows:
  assumes "wf_tensor D"
  shows "rows (swapaxes (reverse_axis1 D)) = rev (rows (swapaxes D))"
proof (rule nth_equalityI)
  show "length (rows (swapaxes (reverse_axis1 D))) = length (rev (rows (swapaxes D)))"
    by (simp add: swapaxes_def reverse_axis1_def)
next
  fix k
  assume "k < length (rows (swapaxes (reverse_axis1 D)))"
  then have k: "k < cols D" by (simp add: swapaxes_def reverse_axis1_def)
  have len: "\<And>r. r \<in> set (rows D) \<Longrightarrow> length r = cols D"
    using assms by (simp add: wf_tensor_def list_all_iff)
  have "map (\<lambda>r. r ! k) (map rev (rows D)) = map (\<lambda>r. r ! (cols D - 1 - k)) (rows D)"
    using k len by (auto simp: rev_nth)
  moreover have "rev (rows (swapaxes D)) ! k = map (\<lambda>r. r ! (cols D - 1 - k)) (rows D)"
    using k by (simp add: swapaxes_def rev_nth)
  ultimately show "rows (swapaxes (reverse_axis1 D)) ! k = rev (rows (swapaxes D)) ! k"
    using k by (simp add: swapaxes_def reverse_axis1_def)
qed

lemma final_reverse:
  assumes "wf_tensor D"
  shows "round_float32 env (swapaxes (reverse_axis1 D))
           = reverse_axis0 (round_float32 env (swapaxes D))"
proof -
  have "cols (swapaxes (reverse_axis1 D)) = cols (swapaxes D)"
    by (simp add: swapaxes_def reverse_axis1_def)
  then show ?thesis
    using swapaxes_reverse_rows [OF assms]
    by (simp add: round_float32_def reverse_axis0_def rev_map)
qed

subsection \<open>The conversion to a torch tensor\<close>

text \<open>
  Without reversal the swapped array has strides \<open>(1, cols)\<close>, so the conversion
  always succeeds. With reversal it has strides \<open>(-1, cols)\<close>: unless it has a single
  frame (or is empty) numpy does not flag it contiguous, \<open>np.ascontiguousarray\<close>
  copies it and the conversion succeeds; with a single frame the flag is set, no copy
  is made, and \<open>torch.FloatTensor\<close> meets the negative stride.
\<close>

lemma to_tensor_plain:
  "to_tensor env False D = ([], Inr (Some (round_float32 env (swapaxes D))))"
  by (simp add: to_tensor_def Let_def FloatTensor_def np_ascontiguousarray_def np_swapaxes_def
      c_order_def swapaxes_def)

lemma to_tensor_reversed:
  "to_tensor env True D =
     ([], if cols D \<le> 1 \<or> rows D = []
          then Inl (ValueError ''At least one stride in the given numpy array is negative'')
          else Inr (Some (round_float32 env (swapaxes (reverse_axis1 D)))))"
proof -
  let ?a = "np_swapaxes (reversed_view (c_order D))"
  have st: "strides ?a = (- 1, int (cols D))"
    by (simp add: np_swapaxes_def reversed_view_def c_order_def)
  have sh: "length (rows (contents ?a)) = cols D" "cols (contents ?a) = length (rows D)"
    by (simp_all add: np_swapaxes_def reversed_view_def c_order_def swapaxes_def
        reverse_axis1_def)
  have c: "c_contiguous ?a \<longleftrightarrow> cols D \<le> 1 \<or> rows D = []"
    unfolding c_contiguous_def Let_def st sh by auto
  have co: "contents ?a = swapaxes (reverse_axis1 D)"
    by (simp add: np_swapaxes_def reversed_view_def c_order_def)
  show ?thesis
  proof (cases "cols D \<le> 1 \<or> rows D = []")
    case True
    with c have "np_ascontiguousarray ?a = ?a" by (simp add: np_ascontiguousarray_def)
    then have "FloatTensor env (np_ascontiguousarray ?a)
        = Inl (ValueError ''At least one stride in the given numpy array is negative'')"
      using st by (simp add: FloatTensor_def)
    with True show ?thesis by (simp add: to_tensor_def Let_def)
  next
    case False
    with c have "np_ascontiguousarray ?a = c_order (contents ?a)"
      by (simp add: np_ascontiguousarray_def)
    then have "FloatTensor env (np_ascontiguousarray ?a)
        = Inr (round_float32 env (swapaxes (reverse_axis1 D)))"
      using co by (simp add: FloatTensor_def c_order_def)
    with False show ?thesis by (simp add: to_tensor_def Let_def)
  qed
qed

lemma to_tensor_events: "fst (to_tensor env b D) = []"
  by (cases b) (simp_all add: to_tensor_plain to_tensor_reversed)

lemma to_tensor_sizes:
  assumes "to_tensor env b D = (ev, Inr (Some A))"
  shows "size0 A = int (cols D) \<and> size1 A = int (length (rows D))"
proof (cases b)
  case True
  with assms have "A = round_float32 env (swapaxes (reverse_axis1 D))"
    by (simp add: to_tensor_reversed split: if_splits)
  then show ?thesis
    by (simp add: round_float32_def swapaxes_def reverse_axis1_def size0_def size1_def)
next
  case False
  with assms have "A = round_float32 env (swapaxes D)"
    by (simp add: to_tensor_plain)
  then show ?thesis
    by (simp add: round_float32_def swapaxes_def size0_def size1_def)
qed

subsection \<open>What a returned matrix was computed from\<close>

lemma get_librosa_melspectrogram_Some:
  "get_librosa_melspectrogram env filepath n_mels del_silence input_reverse mel_type format
     = (ev, Inr (Some A)) \<longleftrightarrow>
   (\<exists>ev1 y ev2 y' S ev3 D ev4.
      load_signal env filepath format = (ev1, Inr (Some y)) \<and>
      remove_silence env del_silence y = (ev2, Inr y') \<and>
      feature_melspectrogram env y' n_mels = Inr S \<and>
      (if mel_type = ''log_mel'' then ([AmplitudeToDb], amplitude_to_db env S)
       else ([], Inr S)) = (ev3, Inr D) \<and>
      to_tensor env input_reverse D = (ev4, Inr (Some A)) \<and>
      ev = ev1 @ ev2 @ [FeatureMelspectrogram y' n_mels] @ ev3 @ ev4)"
proof -
  have "get_librosa_melspectrogram env filepath n_mels del_silence input_reverse mel_type format
     = (ev, Inr (Some A)) \<longleftrightarrow>
     (\<exists>ev1 y evr. load_signal env filepath format = (ev1, Inr (Some y)) \<and>
        and_then (remove_silence env del_silence y) (\<lambda>signal.
          and_then ([FeatureMelspectrogram signal n_mels],
                    feature_melspectrogram env signal n_mels) (\<lambda>feat.
          and_then (if mel_type = ''log_mel'' then ([AmplitudeToDb], amplitude_to_db env feat)
                    else ([], Inr feat)) (\<lambda>feat.
          to_tensor env input_reverse feat)))
          = (evr, Inr (Some A)) \<and> ev = ev1 @ evr)"
    unfolding get_librosa_melspectrogram_def and_then_Inr [of "load_signal env filepath format"]
    by (auto split: option.splits)
  also have "\<dots> \<longleftrightarrow>
   (\<exists>ev1 y ev2 y' S ev3 D ev4.
      load_signal env filepath format = (ev1, Inr (Some y)) \<and>
      remove_silence env del_silence y = (ev2, Inr y') \<and>
      feature_melspectrogram env y' n_mels = Inr S \<and>
      (if mel_type = ''log_mel'' then ([AmplitudeToDb], amplitude_to_db env S)
       else ([], Inr S)) = (ev3, Inr D) \<and>
      to_tensor env input_reverse D = (ev4, Inr (Some A)) \<and>
      ev = ev1 @ ev2 @ [FeatureMelspectrogram y' n_mels] @ ev3 @ ev4)"
    by (simp add: and_then_Inr split del: if_split cong: if_cong) blast
  finally show ?thesis .
qed


text \<open>The other way round: the outcome of the extractor once every stage before the
  conversion has returned.\<close>

lemma get_librosa_melspectrogram_stages:
  assumes "load_signal env filepath format = (ev1, Inr (Some y))"
    and "remove_silence env del_silence y = (ev2, Inr y')"
    and "feature_melspectrogram env y' n_mels = Inr S"
    and "(if mel_type = ''log_mel'' then ([AmplitudeToDb], amplitude_to_db env S)
          else ([], Inr S)) = (ev3, Inr D)"
  shows "get_librosa_melspectrogram env filepath n_mels del_silence input_reverse mel_type format
           = (ev1 @ ev2 @ [FeatureMelspectrogram y' n_mels] @ ev3, snd (to_tensor env input_reverse D))"
proof -
  obtain r where t: "to_tensor env input_reverse D = ([], r)"
    using to_tensor_events [of env input_reverse D]
    by (cases "to_tensor env input_reverse D") simp
  have "and_then (if mel_type = ''log_mel'' then ([AmplitudeToDb], amplitude_to_db env S)
                  else ([], Inr S)) (\<lambda>feat. to_tensor env input_reverse feat) = (ev3, r)"
    unfolding assms(4) using t by (simp add: and_then_def)
  then show ?thesis
    using assms(1,2,3) t
    by (simp add: get_librosa_melspectrogram_def and_then_def)
qed

subsection \<open>Shapes along the pipeline\<close>

lemma same_shape_wf:
  assumes "same_shape B A" and "wf_tensor A"
  shows "wf_tensor B"
proof -
  have "length (rows B ! i) = cols B" if "i < length (rows B)" for i
  proof -
    from assms(1) have l: "length (rows B) = length (rows A)" and c: "cols B = cols A"
      by (auto simp: same_shape_def dest: map_eq_imp_length_eq)
    with that have i: "i < length (rows A)" by simp
    from same_shape_row_length [OF assms(1) i] wf_tensor_row [OF assms(2) i] c
    show ?thesis by simp
  qed
  then show ?thesis by (simp add: wf_tensor_def list_all_length)
qed

lemma db_step_shape:
  assumes "db_shape env"
    and "(if mel_type = ''log_mel'' then ([AmplitudeToDb], amplitude_to_db env S)
          else ([], Inr S)) = (ev3, Inr D)"
  shows "same_shape D S"
proof (cases "mel_type = ''log_mel''")
  case True
  with assms(2) have "amplitude_to_db env S = Inr D" by simp
  with assms(1) show ?thesis by (simp add: db_shape_def)
next
  case False
  with assms(2) have "D = S" by simp
  then show ?thesis by (simp add: same_shape_refl)
qed

subsection \<open>Loading and silence removal\<close>











subsection \<open>The example world keeps the promises\<close>







subsection \<open>The cepstral-coefficient count\<close>



subsection \<open>Unreadable files\<close>

text \<open>
  C3. With \<open>format = 'pcm'\<close>, when \<open>np.memmap\<close> raises, both extractors log the
  message and return \<open>None\<close>; nothing is raised and nothing else is called. With
  \<open>format = 'wav'\<close>, an exception of the loader comes out of the extractor as it is.
  So on a file that neither reader can read, and a format that is one of the two,
  the extractor raises exactly when the format is \<open>'wav'\<close>.
\<close>

theorem unreadable_file:
  "(np_memmap env filepath = Inl e \<longrightarrow>
      get_librosa_melspectrogram env filepath n_mels del_silence input_reverse mel_type ''pcm''
        = ([Memmap filepath, LoggerInfo (filepath @ '' Error Occur !!'')], Inr None) \<and>
      get_librosa_mfcc env filepath n_mfcc del_silence input_reverse ''pcm''
        = ([Memmap filepath, LoggerInfo (filepath @ '' Error Occur !!'')], Inr None)) \<and>
   (librosa_load env filepath = Inl e' \<longrightarrow>
      get_librosa_melspectrogram env filepath n_mels del_silence input_reverse mel_type ''wav''
        = ([LibrosaLoad filepath], Inl e') \<and>
      get_librosa_mfcc env filepath n_mfcc del_silence input_reverse ''wav''
        = ([LibrosaLoad filepath], Inl e')) \<and>
   (np_memmap env filepath = Inl e \<and> librosa_load env filepath = Inl e' \<and>
    (format = ''pcm'' \<or> format = ''wav'') \<longrightarrow>
      (isl (snd (get_librosa_melspectrogram env filepath n_mels del_silence input_reverse
                   mel_type format)) \<longleftrightarrow> format = ''wav'') \<and>
      (isl (snd (get_librosa_mfcc env filepath n_mfcc del_silence input_reverse format))
         \<longleftrightarrow> format = ''wav''))"
  by (auto simp: get_librosa_melspectrogram_def get_librosa_mfcc_def load_signal_def
      and_then_def)

theorem unreadable_file_witness:
  "np_memmap example_env ''c.pcm'' = Inl (LibraryError ''FileNotFoundError'') \<and>
   librosa_load example_env ''c.pcm'' = Inl (LibraryError ''FileNotFoundError'') \<and>
   get_librosa_melspectrogram example_env ''c.pcm'' 128 False True ''log_mel'' ''pcm''
     = ([Memmap ''c.pcm'', LoggerInfo ''c.pcm Error Occur !!''], Inr None) \<and>
   get_librosa_mfcc example_env ''c.pcm'' 33 False True ''pcm''
     = ([Memmap ''c.pcm'', LoggerInfo ''c.pcm Error Occur !!''], Inr None) \<and>
   get_librosa_melspectrogram example_env ''c.pcm'' 128 False True ''log_mel'' ''wav''
     = ([LibrosaLoad ''c.pcm''], Inl (LibraryError ''FileNotFoundError'')) \<and>
   get_librosa_mfcc example_env ''c.pcm'' 33 False True ''wav''
     = ([LibrosaLoad ''c.pcm''], Inl (LibraryError ''FileNotFoundError'')) \<and>
   isl (snd (get_librosa_melspectrogram example_env ''c.pcm'' 128 False True ''log_mel'' ''wav''))"
proof -
  have m: "np_memmap example_env ''c.pcm'' = Inl (LibraryError ''FileNotFoundError'')"
    and l: "librosa_load example_env ''c.pcm'' = Inl (LibraryError ''FileNotFoundError'')"
    by (simp_all add: example_env_def)
  show ?thesis
    using unreadable_file [of example_env "''c.pcm''" "LibraryError ''FileNotFoundError''"
        128 False True "''log_mel''" 33 "LibraryError ''FileNotFoundError''" "''wav''"] m l
    by simp
qed

subsection \<open>Unsupported formats\<close>

text \<open>
  C4. For a format that is neither \<open>'pcm'\<close> nor \<open>'wav'\<close>, both extractors raise
  \<open>ValueError\<close> having made no call at all: no file is opened, no silence is looked
  for, no feature is computed.
\<close>

theorem invalid_format_raises:
  assumes "format \<noteq> ''pcm''" and "format \<noteq> ''wav''"
  shows "get_librosa_melspectrogram env filepath n_mels del_silence input_reverse mel_type format
           = ([], Inl (ValueError ''Invalid format !!'')) \<and>
         get_librosa_mfcc env filepath n_mfcc del_silence input_reverse format
           = ([], Inl (ValueError ''Invalid format !!''))"
  using assms
  by (simp add: get_librosa_melspectrogram_def get_librosa_mfcc_def load_signal_def and_then_def)

theorem invalid_format_raises_witness:
  "get_librosa_melspectrogram example_env ''a.pcm'' 128 False True ''log_mel'' ''mp3''
     = ([], Inl (ValueError ''Invalid format !!'')) \<and>
   get_librosa_mfcc example_env ''a.pcm'' 33 False True ''mp3''
     = ([], Inl (ValueError ''Invalid format !!''))"
proof -
  have "''mp3'' \<noteq> ''pcm''" and "''mp3'' \<noteq> ''wav''" by simp_all
  then show ?thesis by (rule invalid_format_raises)
qed

subsection \<open>Channels and time reversal of the mel-spectrogram\<close>

text \<open>
  Let librosa's \<open>melspectrogram\<close> return \<open>n_mels\<close> rows of equal length and
  \<open>amplitude_to_db\<close> keep the shape. Every matrix \<open>get_librosa_melspectrogram\<close>
  returns then has exactly \<open>n_mels\<close> channels.
\<close>

lemma melspectrogram_channels:
  assumes "feature_shape (feature_melspectrogram env)" and "db_shape env"
    and "get_librosa_melspectrogram env filepath n_mels del_silence input_reverse mel_type format
           = (ev, Inr (Some A))"
  shows "size1 A = n_mels"
proof -
  from assms(3) obtain y' S ev3 D ev4 where f: "feature_melspectrogram env y' n_mels = Inr S"
    and d: "(if mel_type = ''log_mel'' then ([AmplitudeToDb], amplitude_to_db env S)
             else ([], Inr S)) = (ev3, Inr D)"
    and A: "to_tensor env input_reverse D = (ev4, Inr (Some A))"
    unfolding get_librosa_melspectrogram_Some by blast
  from assms(1) f have "int (length (rows S)) = n_mels" by (simp add: feature_shape_def)
  moreover have "size0 D = size0 S"
    using same_shape_sizes [OF db_step_shape [OF assms(2) d]] by simp
  ultimately have "int (length (rows D)) = n_mels" by (simp add: size0_def)
  with to_tensor_sizes [OF A] show ?thesis by simp
qed

text \<open>
  When the call with \<open>input_reverse = False\<close> returns a matrix of more than one time
  step and at least one channel, the call with \<open>input_reverse = True\<close> and the same
  other arguments makes the same calls and returns that matrix with its time steps
  in reverse order.
\<close>

lemma melspectrogram_reversal:
  assumes "feature_shape (feature_melspectrogram env)" and "db_shape env"
    and "get_librosa_melspectrogram env filepath n_mels del_silence False mel_type format
           = (ev, Inr (Some B))"
    and "1 < size0 B" and "0 < size1 B"
  shows "get_librosa_melspectrogram env filepath n_mels del_silence True mel_type format
           = (ev, Inr (Some (reverse_axis0 B)))"
proof -
  from assms(3) obtain ev1 y ev2 y' S ev3 D ev4 where
    l: "load_signal env filepath format = (ev1, Inr (Some y))"
    and r: "remove_silence env del_silence y = (ev2, Inr y')"
    and f: "feature_melspectrogram env y' n_mels = Inr S"
    and d: "(if mel_type = ''log_mel'' then ([AmplitudeToDb], amplitude_to_db env S)
             else ([], Inr S)) = (ev3, Inr D)"
    and t: "to_tensor env False D = (ev4, Inr (Some B))"
    and ev: "ev = ev1 @ ev2 @ [FeatureMelspectrogram y' n_mels] @ ev3 @ ev4"
    unfolding get_librosa_melspectrogram_Some by blast
  from t have ev4: "ev4 = []" and B: "B = round_float32 env (swapaxes D)"
    by (simp_all add: to_tensor_plain)
  from to_tensor_sizes [OF t] assms(4,5) have many: "1 < cols D" "rows D \<noteq> []" by auto
  from assms(1) f have "wf_tensor S" by (simp add: feature_shape_def)
  then have "wf_tensor D" using same_shape_wf [OF db_step_shape [OF assms(2) d]] by simp
  then have "round_float32 env (swapaxes (reverse_axis1 D)) = reverse_axis0 B"
    using B final_reverse [of D env] by simp
  with many have "to_tensor env True D = ([], Inr (Some (reverse_axis0 B)))"
    by (simp add: to_tensor_reversed)
  with get_librosa_melspectrogram_stages [OF l r f d, of True] ev ev4
  show ?thesis by simp
qed

text \<open>
  When it returns a matrix of a single time step, the call with
  \<open>input_reverse = True\<close> makes the same calls and raises.
\<close>

lemma melspectrogram_reversed_one_frame:
  assumes "get_librosa_melspectrogram env filepath n_mels del_silence False mel_type format
           = (ev, Inr (Some B))"
    and "size0 B = 1"
  shows "get_librosa_melspectrogram env filepath n_mels del_silence True mel_type format
           = (ev, Inl (ValueError ''At least one stride in the given numpy array is negative''))"
proof -
  from assms(1) obtain ev1 y ev2 y' S ev3 D ev4 where
    l: "load_signal env filepath format = (ev1, Inr (Some y))"
    and r: "remove_silence env del_silence y = (ev2, Inr y')"
    and f: "feature_melspectrogram env y' n_mels = Inr S"
    and d: "(if mel_type = ''log_mel'' then ([AmplitudeToDb], amplitude_to_db env S)
             else ([], Inr S)) = (ev3, Inr D)"
    and t: "to_tensor env False D = (ev4, Inr (Some B))"
    and ev: "ev = ev1 @ ev2 @ [FeatureMelspectrogram y' n_mels] @ ev3 @ ev4"
    unfolding get_librosa_melspectrogram_Some by blast
  from t have ev4: "ev4 = []" by (simp add: to_tensor_plain)
  from to_tensor_sizes [OF t] assms(2) have "cols D = 1" by simp
  then have "to_tensor env True D
      = ([], Inl (ValueError ''At least one stride in the given numpy array is negative''))"
    by (simp add: to_tensor_reversed)
  with get_librosa_melspectrogram_stages [OF l r f d, of True] ev ev4
  show ?thesis by simp
qed

text \<open>
  C5. The channel count is as the claim says, and so is the reversal for a matrix of
  more than one time step (the two lemmas above). For a matrix of one time step the
  reversal does not hold: in the example world the raw file \<open>b.pcm\<close> of four samples
  gives, with \<open>input_reverse = False\<close>, a matrix of one time step and two channels;
  with \<open>input_reverse = True\<close> and the same other arguments the same calls are made
  and \<open>torch.FloatTensor\<close> raises \<open>ValueError\<close>, so no matrix is returned. Every
  readable raw file of fewer than 160 samples has a single frame.
\<close>

theorem melspectrogram_reversed_single_frame_raises:
  "get_librosa_melspectrogram example_env ''b.pcm'' 2 False False ''log_mel'' ''pcm''
     = ([Memmap ''b.pcm'', FeatureMelspectrogram [1, - 2, 32767, - 32768] 2, AmplitudeToDb],
        Inr (Some \<lparr>cols = 2, rows = [[- 1, 9]]\<rparr>)) \<and>
   get_librosa_melspectrogram example_env ''b.pcm'' 2 False True ''log_mel'' ''pcm''
     = ([Memmap ''b.pcm'', FeatureMelspectrogram [1, - 2, 32767, - 32768] 2, AmplitudeToDb],
        Inl (ValueError ''At least one stride in the given numpy array is negative''))"
  by (simp add: get_librosa_melspectrogram_def and_then_def load_signal_def remove_silence_def
      example_env_def example_features_def to_tensor_plain to_tensor_reversed
      round_float32_def swapaxes_def upt_rec)

subsection \<open>Silence removal\<close>



subsection \<open>The raw samples of a PCM file\<close>



end
